theory Spec2Isabelle
  imports Main
begin

section \<open>Data model\<close>

text \<open>
  The application is an Express server with Passport's local strategy, a Mongoose
  \<open>User\<close> model and sessions kept in a MongoDB store. The embedding keeps the
  source's functions and names. Strings are \<open>string\<close>; a value that JavaScript may
  leave \<open>undefined\<close> is an \<open>option\<close>; every callback's \<open>err\<close> argument is a
  branch of the model.
\<close>

type_synonym oid = nat
type_synonym sid = nat

datatype error = TypeError | MongoError | BcryptError | PassportError | StoreError | NoSession

text \<open>\<open>models/User.js\<close>: the schema's three fields and the document's \<open>_id\<close>.\<close>

record user_doc =
  uid :: oid
  userName :: "string option"
  email :: string
  password :: "string option"

text \<open>
  A flashed entry is the object handed to \<open>req.flash\<close>: the handlers and the strategy
  of this repository pass \<open>{ msg: ... }\<close>, passport-local's own failure passes
  \<open>{ message: ... }\<close>.
\<close>

datatype info = Msg string | Message string

record session =
  passport_user :: "oid option"
  flash :: "(string \<times> info) list"
  returnTo :: "string option"

record form =
  body_userName :: "string option"
  body_email :: "string option"
  body_password :: "string option"
  body_confirmPassword :: "string option"

datatype response = Redirect string | Render string string

text \<open>
  One request in flight, with the two collections it can reach: \<open>body\<close>,
  \<open>session\<close> (unset once destroyed), \<open>user\<close> and \<open>sessionID\<close> are the fields of
  \<open>req\<close>; \<open>res\<close> is the response sent so far; \<open>console\<close> collects
  \<open>console.log\<close>; \<open>users\<close> is the users collection and \<open>sessions\<close> the
  session store, keyed by session token.
\<close>

record state =
  body :: form
  session :: "session option"
  user :: "user_doc option"
  sessionID :: sid
  res :: "response option"
  console :: "string list"
  users :: "user_doc list"
  sessions :: "(sid \<times> session) list"

text \<open>
  What a middleware function does with control: \<open>next()\<close>, \<open>next(err)\<close> (also a
  thrown exception, which Express forwards to \<open>next\<close>), or neither, after a response
  has been sent.
\<close>

datatype signal = Next | Err error | Sent

type_synonym middleware = "state \<Rightarrow> signal \<times> state"

subsection \<open>Libraries the source calls\<close>

text \<open>
  \<open>validator.isEmail\<close> and \<open>validator.normalizeEmail\<close> (called with
  \<open>gmail_remove_dots: false\<close>) and bcrypt's \<open>hash\<close> and \<open>compare\<close> are
  third-party code: they are parameters of the model. What the environment decides during
  one request (the errors handed to callbacks, the generated salt, the fresh document id
  and session token) is the record \<open>env\<close>.
\<close>

record validator =
  isEmail :: "string \<Rightarrow> bool"
  normalizeEmail :: "string \<Rightarrow> string"

record bcrypt =
  bcrypt_hash :: "string \<Rightarrow> string \<Rightarrow> string"
  bcrypt_compare :: "string \<Rightarrow> string \<Rightarrow> bool"

record env =
  findOne_err :: "error option"
  findById_err :: "error option"
  save_err :: "error option"
  genSalt_err :: "error option"
  salt :: string
  hash_err :: "error option"
  compare_err :: "error option"
  logIn_err :: "error option"
  destroy_err :: "error option"
  new_oid :: oid
  new_sid :: sid

text \<open>\<open>validator.isEmpty(str)\<close> and \<open>validator.isLength(str, { min })\<close>.\<close>

definition isEmpty :: "string \<Rightarrow> bool" where
  "isEmpty str = (length str = 0)"

definition isLength :: "string \<Rightarrow> nat \<Rightarrow> bool" where
  "isLength str min_len = (min_len \<le> length str)"

text \<open>\<open>String.prototype.toLowerCase\<close>, on the ASCII letters.\<close>

definition lower_char :: "char \<Rightarrow> char" where
  "lower_char c =
     (let n = (of_char c :: nat) in if 65 \<le> n \<and> n \<le> 90 then char_of (n + 32) else c)"

definition toLowerCase :: "string \<Rightarrow> string" where
  "toLowerCase str = map lower_char str"

subsection \<open>Request helpers of Express, express-flash and Passport\<close>

definition redirect :: "string \<Rightarrow> state \<Rightarrow> state" where
  "redirect url s = s\<lparr>res := Some (Redirect url)\<rparr>"

definition render :: "string \<Rightarrow> string \<Rightarrow> state \<Rightarrow> state" where
  "render view title s = s\<lparr>res := Some (Render view title)\<rparr>"

text \<open>
  \<open>req.flash(type, msgs)\<close> appends the messages to the session's flash entries and
  throws when the request has no session.
\<close>

definition req_flash :: "string \<Rightarrow> info list \<Rightarrow> state \<Rightarrow> error + state" where
  "req_flash type msgs s =
     (case session s of
        None \<Rightarrow> Inl NoSession
      | Some ss \<Rightarrow> Inr (s\<lparr>session := Some (ss\<lparr>flash := flash ss @ map (Pair type) msgs\<rparr>)\<rparr>))"

text \<open>\<open>req.isAuthenticated()\<close>: whether \<open>req.user\<close> is set.\<close>

definition isAuthenticated :: "state \<Rightarrow> bool" where
  "isAuthenticated s = (user s \<noteq> None)"

section \<open>\<open>middleware/auth.js\<close>\<close>

definition ensureAuth :: middleware where
  "ensureAuth s = (if isAuthenticated s then (Next, s) else (Sent, redirect ''/'' s))"

definition ensureGuest :: middleware where
  "ensureGuest s = (if \<not> isAuthenticated s then (Next, s) else (Sent, redirect ''/todos'' s))"

section \<open>\<open>models/User.js\<close>\<close>

text \<open>
  A Mongoose document: the stored fields and whether \<open>isModified('password')\<close>
  holds. \<open>new User({...})\<close> marks the paths it was given a value for as modified.
\<close>

record document =
  doc :: user_doc
  isModified_password :: bool

definition new_User :: "oid \<Rightarrow> string option \<Rightarrow> string \<Rightarrow> string option \<Rightarrow> document" where
  "new_User i n e p =
     \<lparr>doc = \<lparr>uid = i, userName = n, email = e, password = p\<rparr>,
      isModified_password = (p \<noteq> None)\<rparr>"

text \<open>
  \<open>UserSchema.pre('save')\<close>: an unmodified password is left alone; otherwise
  \<open>bcrypt.genSalt\<close>, then \<open>bcrypt.hash\<close>, each handing its error to \<open>next\<close>,
  and the password is replaced by the hash.
\<close>

definition pre_save :: "bcrypt \<Rightarrow> env \<Rightarrow> document \<Rightarrow> error + document" where
  "pre_save B E d =
     (if \<not> isModified_password d then Inr d
      else case genSalt_err E of
        Some err \<Rightarrow> Inl err
      | None \<Rightarrow>
          (case password (doc d) of
             None \<Rightarrow> Inl BcryptError
           | Some p \<Rightarrow>
               (case hash_err E of
                  Some err \<Rightarrow> Inl err
                | None \<Rightarrow> Inr (d\<lparr>doc := (doc d)\<lparr>password := Some (bcrypt_hash B p (salt E))\<rparr>\<rparr>))))"

text \<open>
  \<open>user.save(cb)\<close>: the pre-save hook, then the insert, which the collection refuses
  for a duplicate \<open>_id\<close> and, by the schema's two \<open>unique: true\<close> indexes, for a
  duplicate \<open>userName\<close> or \<open>email\<close>.
\<close>

definition save :: "bcrypt \<Rightarrow> env \<Rightarrow> document \<Rightarrow> user_doc list \<Rightarrow> error + (user_doc \<times> user_doc list)" where
  "save B E d db =
     (case pre_save B E d of
        Inl err \<Rightarrow> Inl err
      | Inr d' \<Rightarrow>
          (case save_err E of
             Some err \<Rightarrow> Inl err
           | None \<Rightarrow>
               if \<exists>u \<in> set db. uid u = uid (doc d') \<or> userName u = userName (doc d')
                    \<or> email u = email (doc d')
               then Inl MongoError
               else Inr (doc d', db @ [doc d'])))"

text \<open>\<open>User.findOne(query, cb)\<close> and \<open>User.findById(id, cb)\<close>.\<close>

definition findOne :: "env \<Rightarrow> (user_doc \<Rightarrow> bool) \<Rightarrow> user_doc list \<Rightarrow> error + user_doc option" where
  "findOne E query db = (case findOne_err E of Some err \<Rightarrow> Inl err | None \<Rightarrow> Inr (find query db))"

definition findById :: "env \<Rightarrow> oid \<Rightarrow> user_doc list \<Rightarrow> error + user_doc option" where
  "findById E i db =
     (case findById_err E of Some err \<Rightarrow> Inl err | None \<Rightarrow> Inr (find (\<lambda>u. uid u = i) db))"

text \<open>\<open>UserSchema.methods.comparePassword\<close>: \<open>bcrypt.compare\<close> against the stored hash.\<close>

definition comparePassword :: "bcrypt \<Rightarrow> env \<Rightarrow> user_doc \<Rightarrow> string \<Rightarrow> error + bool" where
  "comparePassword B E u candidatePassword =
     (case compare_err E of
        Some err \<Rightarrow> Inl err
      | None \<Rightarrow>
          (case password u of
             None \<Rightarrow> Inl BcryptError
           | Some h \<Rightarrow> Inr (bcrypt_compare B candidatePassword h)))"

section \<open>\<open>config/passport.js\<close>\<close>

text \<open>The three ways the strategy calls \<open>done\<close>.\<close>

datatype verified = Done_err error | Done_fail info | Done_user user_doc

text \<open>\<open>!user.password\<close>: an absent or an empty password.\<close>

definition no_password :: "user_doc \<Rightarrow> bool" where
  "no_password u = (password u = None \<or> password u = Some [])"

definition not_found_msg :: "string \<Rightarrow> info" where
  "not_found_msg em = Msg (''Email '' @ em @ '' not found.'')"

definition provider_msg :: info where
  "provider_msg = Msg (''Your account was registered using a sign-in provider. '' @
     ''To enable password login, sign in using a provider, and then set a password '' @
     ''under your user profile.'')"

definition invalid_msg :: info where
  "invalid_msg = Msg ''Invalid email or password.''"

text \<open>The verify callback of \<open>new LocalStrategy({ usernameField: 'email' }, ...)\<close>.\<close>

definition verify :: "bcrypt \<Rightarrow> env \<Rightarrow> user_doc list \<Rightarrow> string \<Rightarrow> string \<Rightarrow> verified" where
  "verify B E db em pw =
     (case findOne E (\<lambda>u. email u = toLowerCase em) db of
        Inl err \<Rightarrow> Done_err err
      | Inr None \<Rightarrow> Done_fail (not_found_msg em)
      | Inr (Some u) \<Rightarrow>
          if no_password u then Done_fail provider_msg
          else (case comparePassword B E u pw of
                  Inl err \<Rightarrow> Done_err err
                | Inr isMatch \<Rightarrow> if isMatch then Done_user u else Done_fail invalid_msg))"

definition serializeUser :: "user_doc \<Rightarrow> oid" where
  "serializeUser u = uid u"

definition deserializeUser :: "env \<Rightarrow> user_doc list \<Rightarrow> oid \<Rightarrow> error + user_doc option" where
  "deserializeUser E db i = findById E i db"

section \<open>Passport and express-session, as the source uses them\<close>

text \<open>
  passport-local reads the credentials from \<open>req.body.email\<close> and
  \<open>req.body.password\<close> and fails with \<open>Missing credentials\<close> when either is absent
  or empty, before the verify callback runs.
\<close>

definition passport_authenticate_local :: "bcrypt \<Rightarrow> env \<Rightarrow> state \<Rightarrow> verified" where
  "passport_authenticate_local B E s =
     (case body_email (body s) of
        None \<Rightarrow> Done_fail (Message ''Missing credentials'')
      | Some em \<Rightarrow>
          (case body_password (body s) of
             None \<Rightarrow> Done_fail (Message ''Missing credentials'')
           | Some pw \<Rightarrow>
               if em = [] \<or> pw = [] then Done_fail (Message ''Missing credentials'')
               else verify B E (users s) em pw))"

text \<open>
  \<open>req.logIn(user, cb)\<close> stores \<open>serializeUser(user)\<close> in the session and sets
  \<open>req.user\<close>; \<open>req.logout(cb)\<close> clears both. Both act on the session of the
  request as it is: a Passport release that also regenerates or saves the session at these
  calls is not modelled.
\<close>

definition req_logIn :: "env \<Rightarrow> user_doc \<Rightarrow> state \<Rightarrow> error + state" where
  "req_logIn E u s =
     (case session s of
        None \<Rightarrow> Inl NoSession
      | Some ss \<Rightarrow>
          (case logIn_err E of
             Some err \<Rightarrow> Inl err
           | None \<Rightarrow> Inr (s\<lparr>session := Some (ss\<lparr>passport_user := Some (serializeUser u)\<rparr>),
                              user := Some u\<rparr>)))"

definition req_logout :: "state \<Rightarrow> state" where
  "req_logout s =
     s\<lparr>user := None, session := map_option (\<lambda>ss. ss\<lparr>passport_user := None\<rparr>) (session s)\<rparr>"

text \<open>
  \<open>req.session.destroy(cb)\<close> unsets \<open>req.session\<close> and removes the session's record
  from the store; when the callback receives an error the record was not removed.
\<close>

definition session_destroy :: "env \<Rightarrow> state \<Rightarrow> state" where
  "session_destroy E s =
     s\<lparr>session := None,
       sessions := (case destroy_err E of
                      None \<Rightarrow> filter (\<lambda>p. fst p \<noteq> sessionID s) (sessions s)
                    | Some err \<Rightarrow> sessions s)\<rparr>"

definition console_log :: "string \<Rightarrow> state \<Rightarrow> state" where
  "console_log line s = s\<lparr>console := console s @ [line]\<rparr>"

section \<open>\<open>controllers/auth.js\<close>\<close>

definition getLogin :: middleware where
  "getLogin s =
     (if user s \<noteq> None then (Sent, redirect ''/todos'' s) else (Sent, render ''login'' ''Login'' s))"

definition login_validationErrors :: "validator \<Rightarrow> string \<Rightarrow> string \<Rightarrow> info list" where
  "login_validationErrors V em pw =
     (if \<not> isEmail V em then [Msg ''Please enter a valid email address.''] else []) @
     (if isEmpty pw then [Msg ''Password cannot be blank.''] else [])"

text \<open>\<open>req.session.returnTo || '/todos'\<close>.\<close>

definition returnTo_or_todos :: "session \<Rightarrow> string" where
  "returnTo_or_todos ss =
     (case returnTo ss of None \<Rightarrow> ''/todos'' | Some url \<Rightarrow> if url = [] then ''/todos'' else url)"

text \<open>
  \<open>postLogin\<close>. The validators throw a \<open>TypeError\<close> on a value that is not a string.
  The callback given to \<open>passport.authenticate('local', ...)\<close> receives what the
  strategy handed to \<open>done\<close>.
\<close>

definition postLogin :: "validator \<Rightarrow> bcrypt \<Rightarrow> env \<Rightarrow> middleware" where
  "postLogin V B E s =
     (case body_email (body s) of
        None \<Rightarrow> (Err TypeError, s)
      | Some em \<Rightarrow>
     (case body_password (body s) of
        None \<Rightarrow> (Err TypeError, s)
      | Some pw \<Rightarrow>
     (let validationErrors = login_validationErrors V em pw in
      if validationErrors \<noteq> [] then
        (case req_flash ''errors'' validationErrors s of
           Inl err \<Rightarrow> (Err err, s)
         | Inr s' \<Rightarrow> (Sent, redirect ''/login'' s'))
      else
        (let s1 = s\<lparr>body := (body s)\<lparr>body_email := Some (normalizeEmail V em)\<rparr>\<rparr> in
         case passport_authenticate_local B E s1 of
           Done_err err \<Rightarrow> (Err err, s1)
         | Done_fail info \<Rightarrow>
             (case req_flash ''errors'' [info] s1 of
                Inl err \<Rightarrow> (Err err, s1)
              | Inr s2 \<Rightarrow> (Sent, redirect ''/login'' s2))
         | Done_user u \<Rightarrow>
             (case req_logIn E u s1 of
                Inl err \<Rightarrow> (Err err, s1)
              | Inr s2 \<Rightarrow>
                  (case req_flash ''success'' [Msg ''Success! You are logged in.''] s2 of
                     Inl err \<Rightarrow> (Err err, s2)
                   | Inr s3 \<Rightarrow>
                       (case session s3 of
                          None \<Rightarrow> (Err TypeError, s3)
                        | Some ss \<Rightarrow> (Sent, redirect (returnTo_or_todos ss) s3))))))))"

text \<open>
  \<open>logout\<close>: \<open>req.logout\<close>, then \<open>req.session.destroy\<close>, whose callback logs an
  error, clears \<open>req.user\<close> and redirects.
\<close>

definition logout :: "env \<Rightarrow> middleware" where
  "logout E s =
     (let s1 = console_log ''User has logged out.'' (req_logout s) in
      case session s1 of
        None \<Rightarrow> (Err TypeError, s1)
      | Some ss \<Rightarrow>
          (let s2 = session_destroy E s1;
               s3 = (case destroy_err E of
                       None \<Rightarrow> s2
                     | Some err \<Rightarrow>
                         console_log ''Error : Failed to destroy the session during logout.'' s2);
               s4 = s3\<lparr>user := None\<rparr>
           in (Sent, redirect ''/'' s4)))"

definition getSignup :: middleware where
  "getSignup s =
     (if user s \<noteq> None then (Sent, redirect ''/todos'' s)
      else (Sent, render ''signup'' ''Create Account'' s))"

definition signup_validationErrors ::
    "validator \<Rightarrow> string \<Rightarrow> string \<Rightarrow> string option \<Rightarrow> info list" where
  "signup_validationErrors V em pw confirmPassword =
     (if \<not> isEmail V em then [Msg ''Please enter a valid email address.''] else []) @
     (if \<not> isLength pw 8 then [Msg ''Password must be at least 8 characters long''] else []) @
     (if Some pw \<noteq> confirmPassword then [Msg ''Passwords do not match''] else [])"

definition exists_msg :: info where
  "exists_msg = Msg ''Account with that email address or username already exists.''"

definition postSignup :: "validator \<Rightarrow> bcrypt \<Rightarrow> env \<Rightarrow> middleware" where
  "postSignup V B E s =
     (case body_email (body s) of
        None \<Rightarrow> (Err TypeError, s)
      | Some em \<Rightarrow>
     (case body_password (body s) of
        None \<Rightarrow> (Err TypeError, s)
      | Some pw \<Rightarrow>
     (let validationErrors =
            signup_validationErrors V em pw (body_confirmPassword (body s)) in
      if validationErrors \<noteq> [] then
        (case req_flash ''errors'' validationErrors s of
           Inl err \<Rightarrow> (Err err, s)
         | Inr s' \<Rightarrow> (Sent, redirect ''../signup'' s'))
      else
        (let em' = normalizeEmail V em;
             s1 = s\<lparr>body := (body s)\<lparr>body_email := Some em'\<rparr>\<rparr>;
             d = new_User (new_oid E) (body_userName (body s1)) em' (Some pw)
         in
         case findOne E (\<lambda>u. email u = em' \<or> userName u = body_userName (body s1)) (users s1) of
           Inl err \<Rightarrow> (Err err, s1)
         | Inr (Some existingUser) \<Rightarrow>
             (case req_flash ''errors'' [exists_msg] s1 of
                Inl err \<Rightarrow> (Err err, s1)
              | Inr s2 \<Rightarrow> (Sent, redirect ''../signup'' s2))
         | Inr None \<Rightarrow>
             (case save B E d (users s1) of
                Inl err \<Rightarrow> (Err err, s1)
              | Inr (u, db') \<Rightarrow>
                  (let s2 = s1\<lparr>users := db'\<rparr> in
                   case req_logIn E u s2 of
                     Inl err \<Rightarrow> (Err err, s2)
                   | Inr s3 \<Rightarrow> (Sent, redirect ''/todos'' s3)))))))"

section \<open>\<open>routes/todos.js\<close>, \<open>routes/main.js\<close> and \<open>server.js\<close>\<close>

datatype http_method = GET | POST | PUT | DELETE

datatype handler =
    EnsureAuth | EnsureGuest
  | GetIndex | GetLogin | PostLogin | Logout | GetSignup | PostSignup
  | GetTodos | CreateTodo | MarkComplete | MarkIncomplete | DeleteTodo

text \<open>
  \<open>controllers/todos.js\<close> and \<open>controllers/home.js\<close> are not among the sources: their
  handlers are parameters.
\<close>

record controllers =
  getIndex :: middleware
  getTodos :: middleware
  createTodo :: middleware
  markComplete :: middleware
  markIncomplete :: middleware
  deleteTodo :: middleware

type_synonym route = "http_method \<times> string \<times> handler list"

definition todoRoutes :: "route list" where
  "todoRoutes =
     [(GET, ''/'', [EnsureAuth, GetTodos]),
      (POST, ''/createTodo'', [CreateTodo]),
      (PUT, ''/markComplete'', [MarkComplete]),
      (PUT, ''/markIncomplete'', [MarkIncomplete]),
      (DELETE, ''/deleteTodo'', [DeleteTodo])]"

definition mainRoutes :: "route list" where
  "mainRoutes =
     [(GET, ''/'', [GetIndex]),
      (GET, ''/login'', [GetLogin]),
      (POST, ''/login'', [PostLogin]),
      (GET, ''/logout'', [Logout]),
      (GET, ''/signup'', [GetSignup]),
      (POST, ''/signup'', [PostSignup])]"

text \<open>The function behind each handler name.\<close>

definition run_handler :: "validator \<Rightarrow> bcrypt \<Rightarrow> env \<Rightarrow> controllers \<Rightarrow> handler \<Rightarrow> middleware" where
  "run_handler V B E C h =
     (case h of
        EnsureAuth \<Rightarrow> ensureAuth
      | EnsureGuest \<Rightarrow> ensureGuest
      | GetIndex \<Rightarrow> getIndex C
      | GetLogin \<Rightarrow> getLogin
      | PostLogin \<Rightarrow> postLogin V B E
      | Logout \<Rightarrow> logout E
      | GetSignup \<Rightarrow> getSignup
      | PostSignup \<Rightarrow> postSignup V B E
      | GetTodos \<Rightarrow> getTodos C
      | CreateTodo \<Rightarrow> createTodo C
      | MarkComplete \<Rightarrow> markComplete C
      | MarkIncomplete \<Rightarrow> markIncomplete C
      | DeleteTodo \<Rightarrow> deleteTodo C)"

text \<open>
  A route's handlers run in order; each runs only if the one before called \<open>next()\<close>.
  The result carries the handlers that ran.
\<close>

fun run_chain :: "(handler \<Rightarrow> middleware) \<Rightarrow> handler list \<Rightarrow> state \<Rightarrow> handler list \<times> signal \<times> state" where
  "run_chain f [] s = ([], Next, s)"
| "run_chain f (h # hs) s =
     (case f h s of
        (Next, s') \<Rightarrow> (case run_chain f hs s' of (tr, sg, s'') \<Rightarrow> (h # tr, sg, s''))
      | (sg, s') \<Rightarrow> ([h], sg, s'))"

text \<open>A route matches on its method and on its path as written.\<close>

definition lookup_route :: "route list \<Rightarrow> http_method \<Rightarrow> string \<Rightarrow> handler list option" where
  "lookup_route rs m path =
     map_option (\<lambda>r. snd (snd r)) (find (\<lambda>r. fst r = m \<and> fst (snd r) = path) rs)"

text \<open>\<open>app.use(prefix, router)\<close>: the router sees the path below its mount point.\<close>

definition mount :: "string \<Rightarrow> string \<Rightarrow> string option" where
  "mount prefix url =
     (if prefix = ''/'' then Some url
      else if take (length prefix) url = prefix then
        (case drop (length prefix) url of
           [] \<Rightarrow> Some ''/''
         | c # cs \<Rightarrow> if c = CHR ''/'' then Some (c # cs) else None)
      else None)"

definition app_route :: "http_method \<Rightarrow> string \<Rightarrow> handler list option" where
  "app_route m url =
     (case Option.bind (mount ''/'' url) (lookup_route mainRoutes m) of
        Some hs \<Rightarrow> Some hs
      | None \<Rightarrow> Option.bind (mount ''/todos'' url) (lookup_route todoRoutes m))"

definition empty_session :: session where
  "empty_session = \<lparr>passport_user = None, flash = [], returnTo = None\<rparr>"

text \<open>
  The session middleware loads the session of the request's token, or starts an empty
  one under a fresh token.
\<close>

definition express_session :: "env \<Rightarrow> state \<Rightarrow> state" where
  "express_session E s =
     (case map_of (sessions s) (sessionID s) of
        Some ss \<Rightarrow> s\<lparr>session := Some ss\<rparr>
      | None \<Rightarrow> s\<lparr>session := Some empty_session, sessionID := new_sid E\<rparr>)"

text \<open>
  \<open>passport.session()\<close> hands the session's stored id to \<open>deserializeUser\<close>: an
  error fails the request, no user removes the id from the session and leaves the
  request anonymous, a user becomes \<open>req.user\<close>.
\<close>

definition passport_session :: "env \<Rightarrow> middleware" where
  "passport_session E s =
     (case session s of
        None \<Rightarrow> (Next, s)
      | Some ss \<Rightarrow>
          (case passport_user ss of
             None \<Rightarrow> (Next, s)
           | Some i \<Rightarrow>
               (case deserializeUser E (users s) i of
                  Inl err \<Rightarrow> (Err err, s)
                | Inr None \<Rightarrow> (Next, s\<lparr>session := Some (ss\<lparr>passport_user := None\<rparr>)\<rparr>)
                | Inr (Some u) \<Rightarrow> (Next, s\<lparr>user := Some u\<rparr>))))"

text \<open>
  At the end of the response the session, if still set, is written back
  (\<open>saveUninitialized: false\<close>: not a new session that is still empty).
\<close>

definition session_save :: "state \<Rightarrow> state" where
  "session_save s =
     (case session s of
        None \<Rightarrow> s
      | Some ss \<Rightarrow>
          if ss = empty_session \<and> map_of (sessions s) (sessionID s) = None then s
          else s\<lparr>sessions := (sessionID s, ss) # filter (\<lambda>p. fst p \<noteq> sessionID s) (sessions s)\<rparr>)"

text \<open>
  One request through \<open>server.js\<close>: a request arrives with its method, url, form body
  and session token; \<open>req.user\<close> starts unset.
\<close>

definition app ::
    "validator \<Rightarrow> bcrypt \<Rightarrow> env \<Rightarrow> controllers \<Rightarrow> http_method \<Rightarrow> string \<Rightarrow> state
       \<Rightarrow> handler list \<times> signal \<times> state" where
  "app V B E C m url s =
     (let s0 = express_session E (s\<lparr>user := None, session := None, res := None\<rparr>) in
      case passport_session E s0 of
        (Next, s1) \<Rightarrow>
          (case app_route m url of
             None \<Rightarrow> ([], Next, session_save s1)
           | Some hs \<Rightarrow>
               (case run_chain (run_handler V B E C) hs s1 of
                  (tr, sg, s2) \<Rightarrow> (tr, sg, session_save s2)))
      | (sg, s1) \<Rightarrow> ([], sg, s1))"

section \<open>Instances for evaluation\<close>

text \<open>
  Concrete values for the parameters, to run the handlers on concrete requests. Like the
  validator package, this \<open>isEmail\<close> refuses an address that contains a space and
  this \<open>normalizeEmail\<close> lowercases without trimming. The hash is salted and longer
  than its input; \<open>compare\<close> accepts the strings that end as the hashes of the
  candidate do.
\<close>

definition sample_validator :: validator where
  "sample_validator =
     \<lparr>isEmail = (\<lambda>str. CHR ''@'' \<in> set str \<and> CHR '' '' \<notin> set str),
      normalizeEmail = toLowerCase\<rparr>"

definition sample_bcrypt :: bcrypt where
  "sample_bcrypt =
     \<lparr>bcrypt_hash = (\<lambda>data slt. ''$2b$10$'' @ slt @ ''$'' @ rev data),
      bcrypt_compare = (\<lambda>data encrypted.
         length data < length encrypted \<and>
         drop (length encrypted - Suc (length data)) encrypted = ''$'' @ rev data)\<rparr>"

definition no_faults :: env where
  "no_faults =
     \<lparr>findOne_err = None, findById_err = None, save_err = None, genSalt_err = None,
      salt = ''N9qo8uLOickgx2ZMRZoMye'', hash_err = None, compare_err = None,
      logIn_err = None, destroy_err = None, new_oid = 1, new_sid = 1\<rparr>"

definition sample_controllers :: controllers where
  "sample_controllers =
     \<lparr>getIndex = (\<lambda>s. (Sent, render ''index'' [] s)),
      getTodos = (\<lambda>s. (Sent, render ''todos'' [] s)),
      createTodo = (\<lambda>s. (Sent, redirect ''/todos'' s)),
      markComplete = (\<lambda>s. (Sent, s)),
      markIncomplete = (\<lambda>s. (Sent, s)),
      deleteTodo = (\<lambda>s. (Sent, s))\<rparr>"

definition empty_form :: form where
  "empty_form =
     \<lparr>body_userName = None, body_email = None, body_password = None,
      body_confirmPassword = None\<rparr>"

text \<open>A request on a fresh server (no users, no sessions), and the two forms.\<close>

definition fresh :: state where
  "fresh =
     \<lparr>body = empty_form, session = Some empty_session, user = None, sessionID = 0,
      res = None, console = [], users = [], sessions = []\<rparr>"

definition signup_form :: "string option \<Rightarrow> string \<Rightarrow> string \<Rightarrow> string \<Rightarrow> form" where
  "signup_form n em pw confirmPassword =
     \<lparr>body_userName = n, body_email = Some em, body_password = Some pw,
      body_confirmPassword = Some confirmPassword\<rparr>"

definition login_form :: "string \<Rightarrow> string \<Rightarrow> form" where
  "login_form em pw =
     \<lparr>body_userName = None, body_email = Some em, body_password = Some pw,
      body_confirmPassword = None\<rparr>"

text \<open>
  The request as the route handlers receive it when its token has no session in the store:
  an empty session under a fresh token, and no \<open>req.user\<close>.
\<close>

definition anonymous :: "env \<Rightarrow> state \<Rightarrow> state" where
  "anonymous E s =
     s\<lparr>sessions := [], user := None, res := None, session := Some empty_session,
       sessionID := new_sid E\<rparr>"

text \<open>
  A registered user (the password is the sample hash of \<open>longpass1\<close>), a server that
  holds her record, and the same server while she is logged in under the token \<open>7\<close>.
\<close>

definition alice :: user_doc where
  "alice =
     \<lparr>uid = 1, userName = Some ''alice'', email = ''alice@example.com'',
      password = Some ''$2b$10$N9qo8uLOickgx2ZMRZoMye$1ssapgnol''\<rparr>"

definition registered :: state where
  "registered = fresh\<lparr>users := [alice]\<rparr>"

definition logged_in :: state where
  "logged_in =
     registered\<lparr>session := Some (empty_session\<lparr>passport_user := Some 1\<rparr>), user := Some alice,
       sessionID := 7, sessions := [(7, empty_session\<lparr>passport_user := Some 1\<rparr>)]\<rparr>"


definition destroy_fails :: env where
  "destroy_fails = no_faults\<lparr>destroy_err := Some StoreError\<rparr>"

text \<open>
  The first signup on the fresh server, a second signup with an empty \<open>userName\<close> on
  the server that holds her record, and the environment of that second request.
\<close>

definition signing_up :: state where
  "signing_up =
     fresh\<lparr>body := signup_form (Some ''alice'') ''Alice@Example.com'' ''longpass1'' ''longpass1''\<rparr>"

definition nameless :: state where
  "nameless =
     registered\<lparr>body := signup_form (Some []) ''bob@example.com'' ''hunter2hunter2''
        ''hunter2hunter2''\<rparr>"

definition second_request :: env where
  "second_request = no_faults\<lparr>new_oid := 2, new_sid := 2\<rparr>"

section \<open>The stored-password invariant\<close>

text \<open>A user record is \<open>hashed\<close> when its password is an output of \<open>bcrypt.hash\<close>.\<close>

definition hashed :: "bcrypt \<Rightarrow> user_doc \<Rightarrow> bool" where
  "hashed B u = (\<exists>data slt. password u = Some (bcrypt_hash B data slt))"

section \<open>Auxiliary facts\<close>

lemma run_chain_single: "run_chain f [h] s = ([h], f h s)"
  by (cases "f h s"; cases "fst (f h s)") auto

lemma app_route_todos:
  "app_route POST ''/todos/createTodo'' = Some [CreateTodo]"
  "app_route PUT ''/todos/markComplete'' = Some [MarkComplete]"
  "app_route PUT ''/todos/markIncomplete'' = Some [MarkIncomplete]"
  "app_route DELETE ''/todos/deleteTodo'' = Some [DeleteTodo]"
  "app_route GET ''/todos'' = Some [EnsureAuth, GetTodos]"
  by (simp_all add: app_route_def mount_def lookup_route_def mainRoutes_def todoRoutes_def)

lemma app_single:
  assumes "app_route m url = Some [h]"
  shows "app V B E C m url (s\<lparr>sessions := []\<rparr>) =
     ([h], fst (run_handler V B E C h (anonymous E s)),
      session_save (snd (run_handler V B E C h (anonymous E s))))"
  using assms
  by (simp add: app_def Let_def express_session_def passport_session_def run_chain_single
      anonymous_def empty_session_def case_prod_beta del: run_chain.simps)

lemma postLogin_redirect:
  assumes "postLogin V B E s = (Sent, s')" "session s = Some ss"
  shows "res s' = Some (Redirect ''/login'') \<or> res s' = Some (Redirect (returnTo_or_todos ss))"
  using assms
  by (auto simp: postLogin_def Let_def req_flash_def redirect_def req_logIn_def returnTo_or_todos_def
      split: option.splits sum.splits if_splits verified.splits)

lemma lower_alice: "toLowerCase ''alice@example.com'' = ''alice@example.com''"
  by code_simp

lemma lower_Alice: "toLowerCase ''Alice@Example.com'' = ''alice@example.com''"
  by code_simp

lemma map_of_filter_fst: "map_of (filter (\<lambda>p. fst p \<noteq> k) xs) k = None"
  by (induction xs) auto

lemma session_save_frame:
  "res (session_save s) = res s" "user (session_save s) = user s"
  "users (session_save s) = users s" "session (session_save s) = session s"
  by (simp_all add: session_save_def split: option.splits)

lemma no_session_pipeline:
  assumes "map_of (sessions s) (sessionID s) = None"
  shows "passport_session E (express_session E (s\<lparr>user := None, session := None, res := None\<rparr>))
     = (Next, s\<lparr>user := None, res := None, session := Some empty_session, sessionID := new_sid E\<rparr>)"
  using assms by (simp add: express_session_def passport_session_def empty_session_def)


lemma app_guarded_anonymous:
  assumes "passport_session E (express_session E (s\<lparr>user := None, session := None, res := None\<rparr>))
      = (Next, a)"
    and "user a = None"
  shows "app V B E C GET ''/todos'' s
     = ([EnsureAuth], Sent, session_save (a\<lparr>res := Some (Redirect ''/'')\<rparr>))"
  using assms
  by (simp add: app_def Let_def app_route_todos run_handler_def ensureAuth_def isAuthenticated_def
      redirect_def)

lemma logout_result:
  assumes "session s = Some ss"
  shows "logout E s =
     (Sent, s\<lparr>session := None, user := None,
              console := console s @ [''User has logged out.''] @
                (case destroy_err E of None \<Rightarrow> []
                 | Some err \<Rightarrow> [''Error : Failed to destroy the session during logout.'']),
              sessions := (case destroy_err E of
                             None \<Rightarrow> filter (\<lambda>p. fst p \<noteq> sessionID s) (sessions s)
                           | Some err \<Rightarrow> sessions s),
              res := Some (Redirect ''/'')\<rparr>)"
  using assms
  by (simp add: logout_def Let_def redirect_def req_logout_def console_log_def session_destroy_def
      split: option.splits)

lemma postSignup_success:
  assumes "body_email (body s) = Some em" "body_password (body s) = Some pw"
    and "body_confirmPassword (body s) = Some pw" "isEmail V em" "8 \<le> length pw"
    and "session s = Some ss"
    and "findOne_err E = None" "genSalt_err E = None" "hash_err E = None" "save_err E = None"
        "logIn_err E = None"
    and "\<forall>u \<in> set (users s). email u \<noteq> normalizeEmail V em \<and>
           userName u \<noteq> body_userName (body s) \<and> uid u \<noteq> new_oid E"
  shows "postSignup V B E s =
     (Sent, s\<lparr>body := (body s)\<lparr>body_email := Some (normalizeEmail V em)\<rparr>,
              users := users s @ [\<lparr>uid = new_oid E, userName = body_userName (body s),
                  email = normalizeEmail V em, password = Some (bcrypt_hash B pw (salt E))\<rparr>],
              session := Some (ss\<lparr>passport_user := Some (new_oid E)\<rparr>),
              user := Some \<lparr>uid = new_oid E, userName = body_userName (body s),
                  email = normalizeEmail V em, password = Some (bcrypt_hash B pw (salt E))\<rparr>,
              res := Some (Redirect ''/todos'')\<rparr>)"
proof -
  have nf: "find (\<lambda>u. email u = normalizeEmail V em \<or> userName u = body_userName (body s)) (users s) = None"
    using assms(12) by (auto simp: find_None_iff)
  have nodup: "\<not> (\<exists>u \<in> set (users s). uid u = new_oid E \<or> userName u = body_userName (body s)
      \<or> email u = normalizeEmail V em)"
    using assms(12) by auto
  show ?thesis
    using assms(1-11) nf nodup
    by (simp add: postSignup_def signup_validationErrors_def isLength_def Let_def findOne_def
        save_def pre_save_def new_User_def req_logIn_def serializeUser_def redirect_def)
qed

lemma postSignup_invalid:
  assumes "body_email (body s) = Some em" "body_password (body s) = Some pw"
    and "session s = Some ss"
    and "signup_validationErrors V em pw (body_confirmPassword (body s)) \<noteq> []"
  shows "postSignup V B E s =
     (Sent, s\<lparr>session := Some (ss\<lparr>flash := flash ss @
                 map (Pair ''errors'') (signup_validationErrors V em pw (body_confirmPassword (body s)))\<rparr>),
              res := Some (Redirect ''../signup'')\<rparr>)"
  using assms by (simp add: postSignup_def Let_def req_flash_def redirect_def)

lemma postSignup_exists:
  assumes "body_email (body s) = Some em" "body_password (body s) = Some pw"
    and "session s = Some ss"
    and "signup_validationErrors V em pw (body_confirmPassword (body s)) = []"
    and "findOne_err E = None"
    and "find (\<lambda>u. email u = normalizeEmail V em \<or> userName u = body_userName (body s)) (users s) = Some x"
  shows "postSignup V B E s =
     (Sent, s\<lparr>body := (body s)\<lparr>body_email := Some (normalizeEmail V em)\<rparr>,
              session := Some (ss\<lparr>flash := flash ss @ [(''errors'', exists_msg)]\<rparr>),
              res := Some (Redirect ''../signup'')\<rparr>)"
  using assms by (simp add: postSignup_def Let_def req_flash_def redirect_def findOne_def)

lemma postSignup_users:
  "users (snd (postSignup V B E s)) = users s \<or>
   (\<exists>n em pw. users (snd (postSignup V B E s)) =
      users s @ [\<lparr>uid = new_oid E, userName = n, email = em, password = Some (bcrypt_hash B pw (salt E))\<rparr>])"
  by (auto simp: postSignup_def Let_def req_flash_def redirect_def findOne_def
        save_def pre_save_def new_User_def req_logIn_def
      split: option.splits sum.splits if_splits)

lemma postLogin_users: "users (snd (postLogin V B E s)) = users s"
  by (auto simp: postLogin_def Let_def req_flash_def redirect_def req_logIn_def
      split: option.splits sum.splits if_splits verified.splits)

lemma logout_users: "users (snd (logout E s)) = users s"
  by (auto simp: logout_def Let_def redirect_def req_logout_def console_log_def session_destroy_def
      split: option.splits)

lemma postLogin_unknown:
  assumes "body_email (body s) = Some em" "body_password (body s) = Some pw"
    and "isEmail V em" "pw \<noteq> []" "normalizeEmail V em \<noteq> []"
    and "session s = Some ss" "findOne_err E = None"
    and "find (\<lambda>u. email u = toLowerCase (normalizeEmail V em)) (users s) = None"
  shows "postLogin V B E s =
     (Sent, s\<lparr>body := (body s)\<lparr>body_email := Some (normalizeEmail V em)\<rparr>,
              session := Some (ss\<lparr>flash := flash ss @
                 [(''errors'', not_found_msg (normalizeEmail V em))]\<rparr>),
              res := Some (Redirect ''/login'')\<rparr>)"
  using assms
  by (simp add: postLogin_def login_validationErrors_def isEmpty_def Let_def
      passport_authenticate_local_def verify_def findOne_def req_flash_def redirect_def)

lemma postLogin_mismatch:
  assumes "body_email (body s) = Some em" "body_password (body s) = Some pw"
    and "isEmail V em" "pw \<noteq> []" "normalizeEmail V em \<noteq> []"
    and "session s = Some ss" "findOne_err E = None" "compare_err E = None"
    and "find (\<lambda>u. email u = toLowerCase (normalizeEmail V em)) (users s) = Some u"
    and "password u = Some h" "h \<noteq> []" "\<not> bcrypt_compare B pw h"
  shows "postLogin V B E s =
     (Sent, s\<lparr>body := (body s)\<lparr>body_email := Some (normalizeEmail V em)\<rparr>,
              session := Some (ss\<lparr>flash := flash ss @ [(''errors'', invalid_msg)]\<rparr>),
              res := Some (Redirect ''/login'')\<rparr>)"
  using assms
  by (simp add: postLogin_def login_validationErrors_def isEmpty_def Let_def
      passport_authenticate_local_def verify_def findOne_def req_flash_def redirect_def
      no_password_def comparePassword_def)

lemma postLogin_success:
  assumes "body_email (body s) = Some em" "body_password (body s) = Some pw"
    and "isEmail V em" "pw \<noteq> []" "normalizeEmail V em \<noteq> []"
    and "session s = Some ss" "findOne_err E = None" "compare_err E = None" "logIn_err E = None"
    and "find (\<lambda>u. email u = toLowerCase (normalizeEmail V em)) (users s) = Some u"
    and "password u = Some h" "h \<noteq> []" "bcrypt_compare B pw h"
  shows "postLogin V B E s =
     (Sent, s\<lparr>body := (body s)\<lparr>body_email := Some (normalizeEmail V em)\<rparr>,
              session := Some (ss\<lparr>passport_user := Some (uid u),
                 flash := flash ss @ [(''success'', Msg ''Success! You are logged in.'')]\<rparr>),
              user := Some u,
              res := Some (Redirect (returnTo_or_todos ss))\<rparr>)"
  using assms
  by (simp add: postLogin_def login_validationErrors_def isEmpty_def Let_def
      passport_authenticate_local_def verify_def findOne_def req_flash_def redirect_def
      no_password_def comparePassword_def req_logIn_def serializeUser_def returnTo_or_todos_def)

lemma find_append_last:
  assumes "\<forall>x \<in> set xs. \<not> P x" "P y"
  shows "find P (xs @ [y]) = Some y"
  using assms by (induction xs) auto

lemma postSignup_hashed:
  assumes "\<forall>u \<in> set (users s). hashed B u"
  shows "\<forall>u \<in> set (users (snd (postSignup V B E s))). hashed B u"
proof -
  from postSignup_users [of V B E s] show ?thesis
  proof
    assume "users (snd (postSignup V B E s)) = users s"
    with assms show ?thesis by simp
  next
    assume "\<exists>n em pw. users (snd (postSignup V B E s)) =
      users s @ [\<lparr>uid = new_oid E, userName = n, email = em,
        password = Some (bcrypt_hash B pw (salt E))\<rparr>]"
    then obtain n em pw where "users (snd (postSignup V B E s)) =
      users s @ [\<lparr>uid = new_oid E, userName = n, email = em,
        password = Some (bcrypt_hash B pw (salt E))\<rparr>]"
      by blast
    with assms show ?thesis
      by (auto simp: hashed_def)
  qed
qed

lemma signup_validation_iff:
  "signup_validationErrors V em pw c = [] \<longleftrightarrow> isEmail V em \<and> 8 \<le> length pw \<and> c = Some pw"
  by (auto simp: signup_validationErrors_def isLength_def)

lemma postSignup_findOne_err:
  assumes "body_email (body s) = Some em" "body_password (body s) = Some pw"
    and "signup_validationErrors V em pw (body_confirmPassword (body s)) = []"
    and "findOne_err E = Some err"
  shows "postSignup V B E s
     = (Err err, s\<lparr>body := (body s)\<lparr>body_email := Some (normalizeEmail V em)\<rparr>\<rparr>)"
  using assms by (simp add: postSignup_def Let_def findOne_def)

lemma verify_match:
  assumes "findOne_err E = None" "compare_err E = None"
    and "find (\<lambda>u. email u = toLowerCase em) db = Some u"
    and "password u = Some h" "h \<noteq> []" "bcrypt_compare B pw h"
  shows "verify B E db em pw = Done_user u"
  using assms by (simp add: verify_def findOne_def no_password_def comparePassword_def)

lemma hashed_alice: "hashed sample_bcrypt alice"
  unfolding hashed_def
  by (rule exI [of _ "''longpass1''"], rule exI [of _ "''N9qo8uLOickgx2ZMRZoMye''"])
     (simp add: alice_def sample_bcrypt_def)

section \<open>The route guard\<close>

text \<open>
  C7. \<open>ensureAuth\<close> calls \<open>next()\<close> exactly when \<open>req.user\<close> is set, and then leaves
  the request as it was, so the guarded handler of \<open>GET /todos\<close> runs next. When
  \<open>req.user\<close> is not set it answers with a redirect to \<open>/\<close> and the route stops
  there: \<open>getTodos\<close> is not among the handlers that ran.
\<close>

theorem ensureAuth_guard:
  "(fst (ensureAuth s) = Next \<longleftrightarrow> user s \<noteq> None) \<and>
   (user s \<noteq> None \<longrightarrow>
      ensureAuth s = (Next, s) \<and>
      run_chain (run_handler V B E C) [EnsureAuth, GetTodos] s
        = ([EnsureAuth, GetTodos], getTodos C s)) \<and>
   (user s = None \<longrightarrow>
      ensureAuth s = (Sent, s\<lparr>res := Some (Redirect ''/'')\<rparr>) \<and>
      run_chain (run_handler V B E C) [EnsureAuth, GetTodos] s
        = ([EnsureAuth], Sent, s\<lparr>res := Some (Redirect ''/'')\<rparr>))"
  by (cases "getTodos C s"; cases "fst (getTodos C s)")
     (auto simp: ensureAuth_def isAuthenticated_def redirect_def run_handler_def)

theorem ensureAuth_guard_witness:
  "user registered = None \<and>
   run_chain (run_handler sample_validator sample_bcrypt no_faults sample_controllers)
      [EnsureAuth, GetTodos] registered
     = ([EnsureAuth], Sent, registered\<lparr>res := Some (Redirect ''/'')\<rparr>) \<and>
   user logged_in \<noteq> None \<and>
   ensureAuth logged_in = (Next, logged_in) \<and>
   run_chain (run_handler sample_validator sample_bcrypt no_faults sample_controllers)
      [EnsureAuth, GetTodos] logged_in
     = ([EnsureAuth, GetTodos], Sent, logged_in\<lparr>res := Some (Render ''todos'' [])\<rparr>)"
  using ensureAuth_guard [of registered sample_validator sample_bcrypt no_faults sample_controllers]
        ensureAuth_guard [of logged_in sample_validator sample_bcrypt no_faults sample_controllers]
  by (simp add: registered_def logged_in_def fresh_def sample_controllers_def render_def)

text \<open>
  C2. Each of the four routes that change todos consists of its controller handler alone,
  while \<open>GET /todos\<close> has \<open>ensureAuth\<close> in front. So on these four routes the
  handler runs on every request, and a request without any session reaches it with
  \<open>req.user\<close> unset.
\<close>

theorem todo_mutations_unguarded:
  "app_route POST ''/todos/createTodo'' = Some [CreateTodo] \<and>
   app_route PUT ''/todos/markComplete'' = Some [MarkComplete] \<and>
   app_route PUT ''/todos/markIncomplete'' = Some [MarkIncomplete] \<and>
   app_route DELETE ''/todos/deleteTodo'' = Some [DeleteTodo] \<and>
   app_route GET ''/todos'' = Some [EnsureAuth, GetTodos] \<and>
   run_chain (run_handler V B E C) [CreateTodo] s = ([CreateTodo], createTodo C s) \<and>
   run_chain (run_handler V B E C) [MarkComplete] s = ([MarkComplete], markComplete C s) \<and>
   run_chain (run_handler V B E C) [MarkIncomplete] s = ([MarkIncomplete], markIncomplete C s) \<and>
   run_chain (run_handler V B E C) [DeleteTodo] s = ([DeleteTodo], deleteTodo C s) \<and>
   user (anonymous E s) = None \<and>
   app V B E C POST ''/todos/createTodo'' (s\<lparr>sessions := []\<rparr>) =
     ([CreateTodo], fst (createTodo C (anonymous E s)),
      session_save (snd (createTodo C (anonymous E s)))) \<and>
   app V B E C PUT ''/todos/markComplete'' (s\<lparr>sessions := []\<rparr>) =
     ([MarkComplete], fst (markComplete C (anonymous E s)),
      session_save (snd (markComplete C (anonymous E s)))) \<and>
   app V B E C PUT ''/todos/markIncomplete'' (s\<lparr>sessions := []\<rparr>) =
     ([MarkIncomplete], fst (markIncomplete C (anonymous E s)),
      session_save (snd (markIncomplete C (anonymous E s)))) \<and>
   app V B E C DELETE ''/todos/deleteTodo'' (s\<lparr>sessions := []\<rparr>) =
     ([DeleteTodo], fst (deleteTodo C (anonymous E s)),
      session_save (snd (deleteTodo C (anonymous E s))))"
  by (simp add: app_route_todos run_chain_single app_single run_handler_def
      del: run_chain.simps) (simp add: anonymous_def)

text \<open>
  C8. Neither guard writes to the request's session, to the session store or to the
  users: \<open>ensureAuth\<close> returns the request as it was, or with the redirect to \<open>/\<close>
  as its response, and \<open>ensureGuest\<close> likewise with \<open>/todos\<close>. In particular
  \<open>ensureAuth\<close> stores no \<open>returnTo\<close>: when the session had none, a login that
  follows the guard's redirect ends at \<open>/login\<close> (rejected) or at the default
  \<open>/todos\<close>.
\<close>

theorem guards_hold_no_state:
  "session (snd (ensureAuth s)) = session s \<and>
   session (snd (ensureGuest s)) = session s \<and>
   sessions (snd (ensureAuth s)) = sessions s \<and>
   sessions (snd (ensureGuest s)) = sessions s \<and>
   snd (ensureAuth s) = (if user s \<noteq> None then s else s\<lparr>res := Some (Redirect ''/'')\<rparr>) \<and>
   snd (ensureGuest s) = (if user s = None then s else s\<lparr>res := Some (Redirect ''/todos'')\<rparr>) \<and>
   (session s = Some ss \<and> returnTo ss = None \<and>
    postLogin V B E ((snd (ensureAuth s))\<lparr>body := b\<rparr>) = (Sent, s')
      \<longrightarrow> res s' = Some (Redirect ''/login'') \<or> res s' = Some (Redirect ''/todos''))"
proof -
  have "res s' = Some (Redirect ''/login'') \<or> res s' = Some (Redirect ''/todos'')"
    if "session s = Some ss" "returnTo ss = None"
       "postLogin V B E ((snd (ensureAuth s))\<lparr>body := b\<rparr>) = (Sent, s')"
  proof -
    have "session ((snd (ensureAuth s))\<lparr>body := b\<rparr>) = Some ss"
      using that(1) by (simp add: ensureAuth_def redirect_def)
    from postLogin_redirect [OF that(3) this] that(2) show ?thesis
      by (simp add: returnTo_or_todos_def)
  qed
  then show ?thesis
    by (simp add: ensureAuth_def ensureGuest_def isAuthenticated_def redirect_def)
qed

theorem guards_hold_no_state_witness:
  "session registered = Some empty_session \<and> returnTo empty_session = None \<and>
   user registered = None \<and>
   snd (ensureAuth registered) = registered\<lparr>res := Some (Redirect ''/'')\<rparr> \<and>
   fst (postLogin sample_validator sample_bcrypt no_faults
      ((snd (ensureAuth registered))\<lparr>body := login_form ''alice@example.com'' ''longpass1''\<rparr>))
     = Sent \<and>
   res (snd (postLogin sample_validator sample_bcrypt no_faults
      ((snd (ensureAuth registered))\<lparr>body := login_form ''alice@example.com'' ''longpass1''\<rparr>)))
     = Some (Redirect ''/todos'')"
proof -
  let ?r = "postLogin sample_validator sample_bcrypt no_faults
      ((snd (ensureAuth registered))\<lparr>body := login_form ''alice@example.com'' ''longpass1''\<rparr>)"
  have a: "session registered = Some empty_session" "returnTo empty_session = None"
      "user registered = None"
    by (simp_all add: registered_def fresh_def empty_session_def)
  have f: "fst ?r = Sent" by code_simp
  have n: "res (snd ?r) \<noteq> Some (Redirect ''/login'')" by code_simp
  have e: "?r = (Sent, snd ?r)"
    using f by (metis prod.collapse)
  have g: "snd (ensureAuth registered) = registered\<lparr>res := Some (Redirect ''/'')\<rparr>"
    using a(3) by (simp add: ensureAuth_def isAuthenticated_def redirect_def)
  have "res (snd ?r) = Some (Redirect ''/login'') \<or> res (snd ?r) = Some (Redirect ''/todos'')"
    using guards_hold_no_state [of registered empty_session sample_validator sample_bcrypt
        no_faults "login_form ''alice@example.com'' ''longpass1''" "snd ?r"] a e
    by blast
  with n have "res (snd ?r) = Some (Redirect ''/todos'')"
    by blast
  with a f g show ?thesis
    by blast
qed

section \<open>Sessions\<close>



text \<open>
  C4 (amended). On a request that has a session, \<open>logout\<close> always answers with a
  redirect to \<open>/\<close>, with \<open>req.user\<close> and \<open>req.session\<close> unset; an error from
  \<open>req.session.destroy\<close> only adds a line to the console. When the destruction
  succeeds, the store no longer holds a record for the token, and a later
  \<open>GET /todos\<close> with that token is redirected to \<open>/\<close> by \<open>ensureAuth\<close>.
\<close>

theorem logout_redirects:
  assumes "session s = Some ss"
  shows "fst (logout E s) = Sent \<and>
    res (snd (logout E s)) = Some (Redirect ''/'') \<and>
    user (snd (logout E s)) = None \<and>
    session (snd (logout E s)) = None \<and>
    sessionID (snd (logout E s)) = sessionID s \<and>
    console (snd (logout E s)) = console s @ [''User has logged out.''] @
       (case destroy_err E of None \<Rightarrow> []
        | Some err \<Rightarrow> [''Error : Failed to destroy the session during logout.'']) \<and>
    (destroy_err E = None \<longrightarrow>
       map_of (sessions (snd (logout E s))) (sessionID s) = None \<and>
       fst (app V B E' C GET ''/todos'' ((snd (logout E s))\<lparr>body := b\<rparr>)) = [EnsureAuth] \<and>
       fst (snd (app V B E' C GET ''/todos'' ((snd (logout E s))\<lparr>body := b\<rparr>))) = Sent \<and>
       res (snd (snd (app V B E' C GET ''/todos'' ((snd (logout E s))\<lparr>body := b\<rparr>))))
         = Some (Redirect ''/''))"
proof -
  note r = logout_result [OF assms, of E]
  have "map_of (sessions ((snd (logout E s))\<lparr>body := b\<rparr>))
          (sessionID ((snd (logout E s))\<lparr>body := b\<rparr>)) = None"
    if "destroy_err E = None"
    using that by (simp add: r map_of_filter_fst)
  from app_guarded_anonymous [OF no_session_pipeline [OF this]]
  have "app V B E' C GET ''/todos'' ((snd (logout E s))\<lparr>body := b\<rparr>) =
     ([EnsureAuth], Sent, session_save ((snd (logout E s))\<lparr>body := b, user := None, res := None,
         session := Some empty_session, sessionID := new_sid E', res := Some (Redirect ''/'')\<rparr>))"
    if "destroy_err E = None"
    using that by simp
  then show ?thesis
    by (simp add: r map_of_filter_fst session_save_frame)
qed

theorem logout_redirects_witness:
  "session logged_in = Some (empty_session\<lparr>passport_user := Some 1\<rparr>) \<and>
   destroy_err no_faults = None \<and>
   res (snd (logout no_faults logged_in)) = Some (Redirect ''/'') \<and>
   map_of (sessions (snd (logout no_faults logged_in))) (sessionID logged_in) = None \<and>
   fst (app sample_validator sample_bcrypt no_faults sample_controllers GET ''/todos''
         ((snd (logout no_faults logged_in))\<lparr>body := empty_form\<rparr>)) = [EnsureAuth] \<and>
   fst (app sample_validator sample_bcrypt no_faults sample_controllers GET ''/todos'' logged_in)
     = [EnsureAuth, GetTodos]"
proof -
  have a: "session logged_in = Some (empty_session\<lparr>passport_user := Some 1\<rparr>)"
    by (simp add: logged_in_def)
  have b: "destroy_err no_faults = None"
    by (simp add: no_faults_def)
  have c: "fst (app sample_validator sample_bcrypt no_faults sample_controllers GET ''/todos''
      logged_in) = [EnsureAuth, GetTodos]"
    by code_simp
  show ?thesis
    using logout_redirects [OF a, of no_faults sample_validator sample_bcrypt no_faults
        sample_controllers empty_form] a b c
    by simp
qed

text \<open>
  C4 as stated fails when the store cannot destroy the session: the logout still
  redirects to \<open>/\<close>, but the record of the token is still in the store.
\<close>

theorem logout_failed_destroy_counterexample:
  "session logged_in \<noteq> None \<and>
   map_of (sessions logged_in) (sessionID logged_in) \<noteq> None \<and>
   res (snd (logout destroy_fails logged_in)) = Some (Redirect ''/'') \<and>
   map_of (sessions (snd (logout destroy_fails logged_in))) (sessionID logged_in) \<noteq> None"
  by code_simp

section \<open>Login\<close>

text \<open>
  C1 (amended). Take one login attempt whose email passes \<open>isEmail\<close>, with a non-empty
  password, on two servers: one where no user has the normalized email, one where a user
  has it but \<open>bcrypt.compare\<close> rejects the password. Both runs redirect to
  \<open>/login\<close>, but they flash different messages: \<open>Email <address> not found.\<close> in the
  first, \<open>Invalid email or password.\<close> in the second.
\<close>

theorem login_failures_differ:
  assumes "body_email (body s1) = Some em" "body_password (body s1) = Some pw"
    and "body s2 = body s1" "session s1 = Some ss" "session s2 = Some ss"
    and "isEmail V em" "pw \<noteq> []" "normalizeEmail V em \<noteq> []"
    and "findOne_err E = None" "compare_err E = None"
    and "find (\<lambda>u. email u = toLowerCase (normalizeEmail V em)) (users s1) = None"
    and "find (\<lambda>u. email u = toLowerCase (normalizeEmail V em)) (users s2) = Some u"
    and "password u = Some h" "h \<noteq> []" "\<not> bcrypt_compare B pw h"
  shows "fst (postLogin V B E s1) = Sent \<and> fst (postLogin V B E s2) = Sent \<and>
    res (snd (postLogin V B E s1)) = Some (Redirect ''/login'') \<and>
    res (snd (postLogin V B E s2)) = Some (Redirect ''/login'') \<and>
    session (snd (postLogin V B E s1)) =
      Some (ss\<lparr>flash := flash ss @
        [(''errors'', Msg (''Email '' @ normalizeEmail V em @ '' not found.''))]\<rparr>) \<and>
    session (snd (postLogin V B E s2)) =
      Some (ss\<lparr>flash := flash ss @ [(''errors'', Msg ''Invalid email or password.'')]\<rparr>) \<and>
    session (snd (postLogin V B E s1)) \<noteq> session (snd (postLogin V B E s2))"
proof -
  have r1: "postLogin V B E s1 =
     (Sent, s1\<lparr>body := (body s1)\<lparr>body_email := Some (normalizeEmail V em)\<rparr>,
              session := Some (ss\<lparr>flash := flash ss @
                 [(''errors'', not_found_msg (normalizeEmail V em))]\<rparr>),
              res := Some (Redirect ''/login'')\<rparr>)"
    using assms by (intro postLogin_unknown) simp_all
  have r2: "postLogin V B E s2 =
     (Sent, s2\<lparr>body := (body s2)\<lparr>body_email := Some (normalizeEmail V em)\<rparr>,
              session := Some (ss\<lparr>flash := flash ss @ [(''errors'', invalid_msg)]\<rparr>),
              res := Some (Redirect ''/login'')\<rparr>)"
    using assms by (intro postLogin_mismatch [where u = u and h = h]) simp_all
  have ne: "ss\<lparr>flash := x\<rparr> \<noteq> ss\<lparr>flash := y\<rparr>" if "x \<noteq> y" for x y
    using that by (auto dest: arg_cong [where f = flash])
  show ?thesis
    by (simp add: r1 r2 not_found_msg_def invalid_msg_def ne)
qed

theorem login_failures_differ_witness:
  "isEmail sample_validator ''alice@example.com'' \<and>
   find (\<lambda>u. email u = toLowerCase (normalizeEmail sample_validator ''alice@example.com''))
     (users (fresh\<lparr>body := login_form ''alice@example.com'' ''wrongpass''\<rparr>)) = None \<and>
   find (\<lambda>u. email u = toLowerCase (normalizeEmail sample_validator ''alice@example.com''))
     (users (registered\<lparr>body := login_form ''alice@example.com'' ''wrongpass''\<rparr>)) = Some alice \<and>
   res (snd (postLogin sample_validator sample_bcrypt no_faults
      (fresh\<lparr>body := login_form ''alice@example.com'' ''wrongpass''\<rparr>)))
     = Some (Redirect ''/login'') \<and>
   res (snd (postLogin sample_validator sample_bcrypt no_faults
      (registered\<lparr>body := login_form ''alice@example.com'' ''wrongpass''\<rparr>)))
     = Some (Redirect ''/login'') \<and>
   session (snd (postLogin sample_validator sample_bcrypt no_faults
      (fresh\<lparr>body := login_form ''alice@example.com'' ''wrongpass''\<rparr>)))
    \<noteq> session (snd (postLogin sample_validator sample_bcrypt no_faults
      (registered\<lparr>body := login_form ''alice@example.com'' ''wrongpass''\<rparr>)))"
proof -
  let ?s1 = "fresh\<lparr>body := login_form ''alice@example.com'' ''wrongpass''\<rparr>"
  let ?s2 = "registered\<lparr>body := login_form ''alice@example.com'' ''wrongpass''\<rparr>"
  have n: "normalizeEmail sample_validator ''alice@example.com'' = ''alice@example.com''"
    by (simp add: sample_validator_def lower_alice)
  have v: "isEmail sample_validator ''alice@example.com''"
    by (simp add: sample_validator_def)
  have f1: "find (\<lambda>u. email u = toLowerCase (normalizeEmail sample_validator ''alice@example.com''))
      (users ?s1) = None"
    by (simp add: fresh_def)
  have f2: "find (\<lambda>u. email u = toLowerCase (normalizeEmail sample_validator ''alice@example.com''))
      (users ?s2) = Some alice"
    by (simp add: registered_def n lower_alice alice_def)
  have c: "\<not> bcrypt_compare sample_bcrypt ''wrongpass'' ''$2b$10$N9qo8uLOickgx2ZMRZoMye$1ssapgnol''"
    by (simp add: sample_bcrypt_def)
  have h1: "body_email (body ?s1) = Some ''alice@example.com''"
    and h2: "body_password (body ?s1) = Some ''wrongpass''"
    and h3: "body ?s2 = body ?s1"
    and h4: "session ?s1 = Some empty_session" and h5: "session ?s2 = Some empty_session"
    and h7: "''wrongpass'' \<noteq> []"
    and h8: "normalizeEmail sample_validator ''alice@example.com'' \<noteq> []"
    and h9: "findOne_err no_faults = None" and h10: "compare_err no_faults = None"
    and h13: "password alice = Some ''$2b$10$N9qo8uLOickgx2ZMRZoMye$1ssapgnol''"
    and h14: "''$2b$10$N9qo8uLOickgx2ZMRZoMye$1ssapgnol'' \<noteq> []"
    by (simp_all add: n login_form_def fresh_def registered_def no_faults_def alice_def)
  note th = login_failures_differ [OF h1 h2 h3 h4 h5 v h7 h8 h9 h10 f1 f2 h13 h14 c]
  from th v f1 f2 show ?thesis
    by blast
qed

text \<open>
  C1 as stated fails: the same attempt, \<open>alice@example.com\<close> with a wrong password,
  is answered with two different flashed messages on the server without and the server
  with her record.
\<close>

theorem login_responses_counterexample:
  "isEmail sample_validator ''alice@example.com'' \<and>
   find (\<lambda>u. email u = ''alice@example.com'') (users fresh) = None \<and>
   find (\<lambda>u. email u = ''alice@example.com'') (users registered) = Some alice \<and>
   postLogin sample_validator sample_bcrypt no_faults
       (fresh\<lparr>body := login_form ''alice@example.com'' ''wrongpass''\<rparr>)
     = (Sent, fresh\<lparr>body := login_form ''alice@example.com'' ''wrongpass'',
          session := Some (empty_session\<lparr>flash :=
             [(''errors'', Msg ''Email alice@example.com not found.'')]\<rparr>),
          res := Some (Redirect ''/login'')\<rparr>) \<and>
   postLogin sample_validator sample_bcrypt no_faults
       (registered\<lparr>body := login_form ''alice@example.com'' ''wrongpass''\<rparr>)
     = (Sent, registered\<lparr>body := login_form ''alice@example.com'' ''wrongpass'',
          session := Some (empty_session\<lparr>flash :=
             [(''errors'', Msg ''Invalid email or password.'')]\<rparr>),
          res := Some (Redirect ''/login'')\<rparr>)"
  by code_simp

section \<open>Signup\<close>

text \<open>
  C3. A signup with a valid form, an email and a username that no record has, and no
  failing callback succeeds, and looking the new record up by its email finds a password
  that is \<open>bcrypt.hash\<close> of the submitted one under the generated salt; it differs
  from the submitted password (given that the hash of this password is not the password
  itself). The invariant that every stored password is a hash is kept by every handler of
  \<open>controllers/auth.js\<close> and \<open>middleware/auth.js\<close>: \<open>postSignup\<close> is the only
  one that writes a record, and the others leave the users as they are.
\<close>

theorem signup_stores_hash:
  assumes "body_email (body s) = Some em" "body_password (body s) = Some pw"
    and "body_confirmPassword (body s) = Some pw" "isEmail V em" "8 \<le> length pw"
    and "session s = Some ss"
    and "findOne_err E = None" "genSalt_err E = None" "hash_err E = None" "save_err E = None"
        "logIn_err E = None"
    and "\<forall>u \<in> set (users s). email u \<noteq> normalizeEmail V em \<and>
           userName u \<noteq> body_userName (body s) \<and> uid u \<noteq> new_oid E"
    and "bcrypt_hash B pw (salt E) \<noteq> pw"
  shows "fst (postSignup V B E s) = Sent \<and>
    res (snd (postSignup V B E s)) = Some (Redirect ''/todos'') \<and>
    (\<exists>u. find (\<lambda>u. email u = normalizeEmail V em) (users (snd (postSignup V B E s))) = Some u \<and>
         password u = Some (bcrypt_hash B pw (salt E)) \<and> password u \<noteq> Some pw) \<and>
    ((\<forall>u \<in> set (users t). hashed B u) \<longrightarrow>
       (\<forall>u \<in> set (users (snd (postSignup V B E' t))). hashed B u) \<and>
       users (snd (postLogin V B E' t)) = users t \<and>
       users (snd (logout E' t)) = users t \<and>
       users (snd (getLogin t)) = users t \<and>
       users (snd (getSignup t)) = users t \<and>
       users (snd (ensureAuth t)) = users t \<and>
       users (snd (ensureGuest t)) = users t)"
proof -
  let ?u = "\<lparr>uid = new_oid E, userName = body_userName (body s),
     email = normalizeEmail V em, password = Some (bcrypt_hash B pw (salt E))\<rparr>"
  note r = postSignup_success [OF assms(1-12), of B]
  have "find (\<lambda>u. email u = normalizeEmail V em) (users s @ [?u]) = Some ?u"
    using assms(12) by (intro find_append_last) auto
  then have a: "\<exists>u. find (\<lambda>u. email u = normalizeEmail V em) (users (snd (postSignup V B E s))) = Some u \<and>
         password u = Some (bcrypt_hash B pw (salt E)) \<and> password u \<noteq> Some pw"
    using assms(13) by (simp add: r)
  have b: "users (snd (getLogin t)) = users t" "users (snd (getSignup t)) = users t"
      "users (snd (ensureAuth t)) = users t" "users (snd (ensureGuest t)) = users t"
    by (simp_all add: getLogin_def getSignup_def ensureAuth_def ensureGuest_def redirect_def
        render_def)
  show ?thesis
    using a b postSignup_hashed [of t B V E'] postLogin_users [of V B E' t] logout_users [of E' t]
    by (simp add: r)
qed

theorem signup_stores_hash_witness:
  "isEmail sample_validator ''Alice@Example.com'' \<and>
   bcrypt_hash sample_bcrypt ''longpass1'' (salt no_faults) \<noteq> ''longpass1'' \<and>
   fst (postSignup sample_validator sample_bcrypt no_faults signing_up) = Sent \<and>
   (\<exists>u. find (\<lambda>u. email u = normalizeEmail sample_validator ''Alice@Example.com'')
           (users (snd (postSignup sample_validator sample_bcrypt no_faults signing_up))) = Some u \<and>
        password u = Some (bcrypt_hash sample_bcrypt ''longpass1'' (salt no_faults)) \<and>
        password u \<noteq> Some ''longpass1'') \<and>
   list_all (hashed sample_bcrypt) (users nameless) \<and>
   list_all (hashed sample_bcrypt)
     (users (snd (postSignup sample_validator sample_bcrypt second_request nameless)))"
proof -
  have h: "body_email (body signing_up) = Some ''Alice@Example.com''"
      "body_password (body signing_up) = Some ''longpass1''"
      "body_confirmPassword (body signing_up) = Some ''longpass1''"
      "isEmail sample_validator ''Alice@Example.com''"
      "8 \<le> length ''longpass1''"
      "session signing_up = Some empty_session"
      "findOne_err no_faults = None" "genSalt_err no_faults = None" "hash_err no_faults = None"
      "save_err no_faults = None" "logIn_err no_faults = None"
      "\<forall>u \<in> set (users signing_up).
          email u \<noteq> normalizeEmail sample_validator ''Alice@Example.com'' \<and>
          userName u \<noteq> body_userName (body signing_up) \<and> uid u \<noteq> new_oid no_faults"
      "bcrypt_hash sample_bcrypt ''longpass1'' (salt no_faults) \<noteq> ''longpass1''"
    by (simp_all add: signing_up_def signup_form_def fresh_def no_faults_def sample_validator_def
        sample_bcrypt_def)
  have i: "\<forall>u \<in> set (users nameless). hashed sample_bcrypt u"
    by (simp add: nameless_def registered_def hashed_alice)
  note th = signup_stores_hash [OF h, of nameless second_request]
  from th i have "\<forall>u \<in> set (users (snd (postSignup sample_validator sample_bcrypt second_request nameless))).
      hashed sample_bcrypt u"
    by blast
  with th i h(4,13) show ?thesis
    unfolding list_all_iff by blast
qed

text \<open>
  C10. The signup validation looks at the email, the password's length and the
  confirmation only. With a missing or empty \<open>userName\<close> and otherwise valid fields
  there is no validation error, and the handler goes on to \<open>User.findOne\<close>: its error
  is passed on, an existing record leads to the "already exists" redirect, and otherwise
  (no failing callback, fresh id) the record is saved with that \<open>userName\<close>.
\<close>

theorem signup_ignores_userName:
  assumes "body_email (body s) = Some em" "body_password (body s) = Some pw"
    and "body_confirmPassword (body s) = Some pw" "isEmail V em" "8 \<le> length pw"
    and "body_userName (body s) = None \<or> body_userName (body s) = Some []"
    and "session s = Some ss"
  shows "signup_validationErrors V em pw (body_confirmPassword (body s)) = [] \<and>
    (signup_validationErrors V em' pw' c = [] \<longleftrightarrow> isEmail V em' \<and> 8 \<le> length pw' \<and> c = Some pw') \<and>
    (findOne_err E = Some err \<longrightarrow>
       postSignup V B E s
         = (Err err, s\<lparr>body := (body s)\<lparr>body_email := Some (normalizeEmail V em)\<rparr>\<rparr>)) \<and>
    (findOne_err E = None \<and>
     find (\<lambda>u. email u = normalizeEmail V em \<or> userName u = body_userName (body s)) (users s)
       = Some x \<longrightarrow>
       postSignup V B E s
         = (Sent, s\<lparr>body := (body s)\<lparr>body_email := Some (normalizeEmail V em)\<rparr>,
              session := Some (ss\<lparr>flash := flash ss @ [(''errors'', exists_msg)]\<rparr>),
              res := Some (Redirect ''../signup'')\<rparr>)) \<and>
    (findOne_err E = None \<and> genSalt_err E = None \<and> hash_err E = None \<and> save_err E = None \<and>
     logIn_err E = None \<and>
     (\<forall>u \<in> set (users s). email u \<noteq> normalizeEmail V em \<and>
           userName u \<noteq> body_userName (body s) \<and> uid u \<noteq> new_oid E) \<longrightarrow>
       fst (postSignup V B E s) = Sent \<and>
       res (snd (postSignup V B E s)) = Some (Redirect ''/todos'') \<and>
       users (snd (postSignup V B E s))
         = users s @ [\<lparr>uid = new_oid E, userName = body_userName (body s),
              email = normalizeEmail V em, password = Some (bcrypt_hash B pw (salt E))\<rparr>])"
proof -
  have v: "signup_validationErrors V em pw (body_confirmPassword (body s)) = []"
    using assms(3-5) by (simp add: signup_validation_iff)
  have e: "postSignup V B E s
         = (Err err, s\<lparr>body := (body s)\<lparr>body_email := Some (normalizeEmail V em)\<rparr>\<rparr>)"
    if "findOne_err E = Some err"
    using postSignup_findOne_err [OF assms(1,2) v that] .
  have x: "postSignup V B E s
         = (Sent, s\<lparr>body := (body s)\<lparr>body_email := Some (normalizeEmail V em)\<rparr>,
              session := Some (ss\<lparr>flash := flash ss @ [(''errors'', exists_msg)]\<rparr>),
              res := Some (Redirect ''../signup'')\<rparr>)"
    if "findOne_err E = None"
      "find (\<lambda>u. email u = normalizeEmail V em \<or> userName u = body_userName (body s)) (users s)
       = Some x"
    using postSignup_exists [OF assms(1,2,7) v that] .
  have n: "fst (postSignup V B E s) = Sent \<and>
       res (snd (postSignup V B E s)) = Some (Redirect ''/todos'') \<and>
       users (snd (postSignup V B E s))
         = users s @ [\<lparr>uid = new_oid E, userName = body_userName (body s),
              email = normalizeEmail V em, password = Some (bcrypt_hash B pw (salt E))\<rparr>]"
    if "findOne_err E = None" "genSalt_err E = None" "hash_err E = None" "save_err E = None"
      "logIn_err E = None"
      "\<forall>u \<in> set (users s). email u \<noteq> normalizeEmail V em \<and>
           userName u \<noteq> body_userName (body s) \<and> uid u \<noteq> new_oid E"
    using postSignup_success [OF assms(1-5,7) that, of B] by simp
  show ?thesis
    using v e x n signup_validation_iff [of V em' pw' c] by blast
qed

theorem signup_ignores_userName_witness:
  "body_userName (body nameless) = Some [] \<and>
   signup_validationErrors sample_validator ''bob@example.com'' ''hunter2hunter2''
      (body_confirmPassword (body nameless)) = [] \<and>
   fst (postSignup sample_validator sample_bcrypt second_request nameless) = Sent \<and>
   res (snd (postSignup sample_validator sample_bcrypt second_request nameless))
     = Some (Redirect ''/todos'') \<and>
   users (snd (postSignup sample_validator sample_bcrypt second_request nameless))
     = users nameless @ [\<lparr>uid = new_oid second_request, userName = body_userName (body nameless),
          email = normalizeEmail sample_validator ''bob@example.com'',
          password = Some (bcrypt_hash sample_bcrypt ''hunter2hunter2'' (salt second_request))\<rparr>]"
proof -
  have h: "body_email (body nameless) = Some ''bob@example.com''"
      "body_password (body nameless) = Some ''hunter2hunter2''"
      "body_confirmPassword (body nameless) = Some ''hunter2hunter2''"
      "isEmail sample_validator ''bob@example.com''"
      "8 \<le> length ''hunter2hunter2''"
      "body_userName (body nameless) = None \<or> body_userName (body nameless) = Some []"
      "session nameless = Some empty_session"
    by (simp_all add: nameless_def signup_form_def registered_def fresh_def sample_validator_def)
  have n: "normalizeEmail sample_validator ''bob@example.com'' = ''bob@example.com''"
    unfolding sample_validator_def by code_simp
  have e: "findOne_err second_request = None \<and> genSalt_err second_request = None \<and>
      hash_err second_request = None \<and> save_err second_request = None \<and>
      logIn_err second_request = None \<and>
      (\<forall>u \<in> set (users nameless).
          email u \<noteq> normalizeEmail sample_validator ''bob@example.com'' \<and>
          userName u \<noteq> body_userName (body nameless) \<and> uid u \<noteq> new_oid second_request)"
    by (simp add: n second_request_def no_faults_def nameless_def registered_def alice_def
        signup_form_def)
  have b: "body_userName (body nameless) = Some []"
    by (simp add: nameless_def signup_form_def)
  note th = signup_ignores_userName [OF h, of "''bob@example.com''" "''hunter2hunter2''"
      "Some ''hunter2hunter2''" second_request StoreError sample_bcrypt alice]
  from th e b h(3) show ?thesis
    by blast
qed

text \<open>
  C6 (amended). For a validator that accepts \<open>Alice@Example.com\<close> and
  \<open>alice@example.com\<close>, normalizes both to \<open>alice@example.com\<close> and refuses the
  address with a trailing space: the signup of \<open>alice\<close> with \<open>Alice@Example.com\<close>
  and \<open>longpass1\<close> succeeds and stores the email \<open>alice@example.com\<close>; the strategy
  then authenticates \<open>alice@example.com\<close> with \<open>longpass1\<close> and the login ends
  logged in as her. With the trailing space the same signup ends in the validation
  redirect with \<open>Please enter a valid email address.\<close>
\<close>

theorem alice_example:
  assumes V: "isEmail V ''Alice@Example.com''"
      "normalizeEmail V ''Alice@Example.com'' = ''alice@example.com''"
      "isEmail V ''alice@example.com''"
      "normalizeEmail V ''alice@example.com'' = ''alice@example.com''"
      "\<not> isEmail V ''Alice@Example.com ''"
    and B: "bcrypt_compare B ''longpass1'' (bcrypt_hash B ''longpass1'' (salt E))"
      "bcrypt_hash B ''longpass1'' (salt E) \<noteq> []"
    and E: "findOne_err E = None" "genSalt_err E = None" "hash_err E = None" "save_err E = None"
      "logIn_err E = None"
    and E': "findOne_err E' = None" "compare_err E' = None" "logIn_err E' = None"
    and s: "session s = Some ss"
      "\<forall>u \<in> set (users s). email u \<noteq> ''alice@example.com'' \<and> userName u \<noteq> Some ''alice'' \<and>
         uid u \<noteq> new_oid E"
    and a: "a = \<lparr>uid = new_oid E, userName = Some ''alice'', email = ''alice@example.com'',
         password = Some (bcrypt_hash B ''longpass1'' (salt E))\<rparr>"
    and s1: "s1 = snd (postSignup V B E
         (s\<lparr>body := signup_form (Some ''alice'') ''Alice@Example.com'' ''longpass1'' ''longpass1''\<rparr>))"
  shows "fst (postSignup V B E
         (s\<lparr>body := signup_form (Some ''alice'') ''Alice@Example.com'' ''longpass1'' ''longpass1''\<rparr>))
       = Sent \<and>
    res s1 = Some (Redirect ''/todos'') \<and>
    users s1 = users s @ [a] \<and>
    verify B E' (users s1) ''alice@example.com'' ''longpass1'' = Done_user a \<and>
    fst (postLogin V B E' (s1\<lparr>body := login_form ''alice@example.com'' ''longpass1''\<rparr>)) = Sent \<and>
    user (snd (postLogin V B E' (s1\<lparr>body := login_form ''alice@example.com'' ''longpass1''\<rparr>)))
       = Some a \<and>
    res (snd (postLogin V B E' (s1\<lparr>body := login_form ''alice@example.com'' ''longpass1''\<rparr>)))
       = Some (Redirect (returnTo_or_todos ss)) \<and>
    postSignup V B E
         (s\<lparr>body := signup_form (Some ''alice'') ''Alice@Example.com '' ''longpass1'' ''longpass1''\<rparr>)
       = (Sent, s\<lparr>body := signup_form (Some ''alice'') ''Alice@Example.com '' ''longpass1'' ''longpass1'',
            session := Some (ss\<lparr>flash := flash ss @
               [(''errors'', Msg ''Please enter a valid email address.'')]\<rparr>),
            res := Some (Redirect ''../signup'')\<rparr>)"
proof -
  let ?s0 = "s\<lparr>body := signup_form (Some ''alice'') ''Alice@Example.com'' ''longpass1'' ''longpass1''\<rparr>"
  let ?l = "s1\<lparr>body := login_form ''alice@example.com'' ''longpass1''\<rparr>"
  have up: "postSignup V B E ?s0 =
     (Sent, ?s0\<lparr>body := (body ?s0)\<lparr>body_email := Some ''alice@example.com''\<rparr>,
              users := users s @ [a],
              session := Some (ss\<lparr>passport_user := Some (new_oid E)\<rparr>),
              user := Some a,
              res := Some (Redirect ''/todos'')\<rparr>)"
    using postSignup_success [of ?s0 "''Alice@Example.com''" "''longpass1''" V ss E B] V E s
    by (simp add: signup_form_def a)
  have u1: "users s1 = users s @ [a]" and r1: "res s1 = Some (Redirect ''/todos'')"
    and ss1: "session s1 = Some (ss\<lparr>passport_user := Some (new_oid E)\<rparr>)"
    by (simp_all add: s1 up)
  have f: "find (\<lambda>u. email u = toLowerCase ''alice@example.com'') (users s1) = Some a"
    unfolding u1 lower_alice using s(2) by (intro find_append_last) (auto simp: a)
  have vf: "verify B E' (users s1) ''alice@example.com'' ''longpass1'' = Done_user a"
    using E' f B by (intro verify_match [where h = "bcrypt_hash B ''longpass1'' (salt E)"])
      (simp_all add: a)
  have lg: "postLogin V B E' ?l =
     (Sent, ?l\<lparr>body := (body ?l)\<lparr>body_email := Some (normalizeEmail V ''alice@example.com'')\<rparr>,
              session := Some (ss\<lparr>passport_user := Some (new_oid E), passport_user := Some (uid a),
                 flash := flash (ss\<lparr>passport_user := Some (new_oid E)\<rparr>) @
                    [(''success'', Msg ''Success! You are logged in.'')]\<rparr>),
              user := Some a,
              res := Some (Redirect (returnTo_or_todos (ss\<lparr>passport_user := Some (new_oid E)\<rparr>)))\<rparr>)"
    using V E' B f ss1
    by (intro postLogin_success [where h = "bcrypt_hash B ''longpass1'' (salt E)"])
       (simp_all add: login_form_def a)
  have bad: "postSignup V B E
         (s\<lparr>body := signup_form (Some ''alice'') ''Alice@Example.com '' ''longpass1'' ''longpass1''\<rparr>)
       = (Sent, s\<lparr>body := signup_form (Some ''alice'') ''Alice@Example.com '' ''longpass1'' ''longpass1'',
            session := Some (ss\<lparr>flash := flash ss @
               [(''errors'', Msg ''Please enter a valid email address.'')]\<rparr>),
            res := Some (Redirect ''../signup'')\<rparr>)"
    using V(5) s(1)
    by (simp add: postSignup_def signup_form_def signup_validationErrors_def isLength_def Let_def
        req_flash_def redirect_def)
  show ?thesis
    using up u1 r1 vf bad by (simp add: lg returnTo_or_todos_def)
qed

theorem alice_example_witness:
  "isEmail sample_validator ''Alice@Example.com'' \<and>
   normalizeEmail sample_validator ''Alice@Example.com'' = ''alice@example.com'' \<and>
   \<not> isEmail sample_validator ''Alice@Example.com '' \<and>
   bcrypt_compare sample_bcrypt ''longpass1'' (bcrypt_hash sample_bcrypt ''longpass1'' (salt no_faults)) \<and>
   users (snd (postSignup sample_validator sample_bcrypt no_faults signing_up))
     = users fresh @ [alice] \<and>
   verify sample_bcrypt no_faults
      (users (snd (postSignup sample_validator sample_bcrypt no_faults signing_up)))
      ''alice@example.com'' ''longpass1'' = Done_user alice \<and>
   user (snd (postLogin sample_validator sample_bcrypt no_faults
      ((snd (postSignup sample_validator sample_bcrypt no_faults signing_up))
         \<lparr>body := login_form ''alice@example.com'' ''longpass1''\<rparr>))) = Some alice \<and>
   res (snd (postLogin sample_validator sample_bcrypt no_faults
      ((snd (postSignup sample_validator sample_bcrypt no_faults signing_up))
         \<lparr>body := login_form ''alice@example.com'' ''longpass1''\<rparr>)))
     = Some (Redirect (returnTo_or_todos empty_session))"
proof -
  have V: "isEmail sample_validator ''Alice@Example.com''"
      "normalizeEmail sample_validator ''Alice@Example.com'' = ''alice@example.com''"
      "isEmail sample_validator ''alice@example.com''"
      "normalizeEmail sample_validator ''alice@example.com'' = ''alice@example.com''"
      "\<not> isEmail sample_validator ''Alice@Example.com ''"
    by (simp_all add: sample_validator_def lower_alice lower_Alice)
  have B: "bcrypt_compare sample_bcrypt ''longpass1''
        (bcrypt_hash sample_bcrypt ''longpass1'' (salt no_faults))"
      "bcrypt_hash sample_bcrypt ''longpass1'' (salt no_faults) \<noteq> []"
    by (simp_all add: sample_bcrypt_def no_faults_def)
  have E: "findOne_err no_faults = None" "genSalt_err no_faults = None" "hash_err no_faults = None"
      "save_err no_faults = None" "logIn_err no_faults = None"
    and E': "findOne_err no_faults = None" "compare_err no_faults = None" "logIn_err no_faults = None"
    by (simp_all add: no_faults_def)
  have s: "session fresh = Some empty_session"
      "\<forall>u \<in> set (users fresh). email u \<noteq> ''alice@example.com'' \<and> userName u \<noteq> Some ''alice'' \<and>
         uid u \<noteq> new_oid no_faults"
    by (simp_all add: fresh_def)
  have a: "alice = \<lparr>uid = new_oid no_faults, userName = Some ''alice'', email = ''alice@example.com'',
         password = Some (bcrypt_hash sample_bcrypt ''longpass1'' (salt no_faults))\<rparr>"
    by (simp add: alice_def no_faults_def sample_bcrypt_def)
  have s1: "snd (postSignup sample_validator sample_bcrypt no_faults signing_up)
      = snd (postSignup sample_validator sample_bcrypt no_faults
         (fresh\<lparr>body := signup_form (Some ''alice'') ''Alice@Example.com'' ''longpass1'' ''longpass1''\<rparr>))"
    by (simp add: signing_up_def)
  note th = alice_example [OF V B E E' s a s1]
  from th V(1,2,5) B(1) show ?thesis
    by blast
qed

text \<open>
  C6 as stated fails: with the trailing space the address does not pass \<open>isEmail\<close>,
  the signup is answered with the validation redirect and no record is stored.
\<close>

theorem alice_trailing_space_counterexample:
  "postSignup sample_validator sample_bcrypt no_faults
       (fresh\<lparr>body := signup_form (Some ''alice'') ''Alice@Example.com '' ''longpass1'' ''longpass1''\<rparr>)
     = (Sent, fresh\<lparr>body := signup_form (Some ''alice'') ''Alice@Example.com '' ''longpass1'' ''longpass1'',
          session := Some (empty_session\<lparr>flash :=
             [(''errors'', Msg ''Please enter a valid email address.'')]\<rparr>),
          res := Some (Redirect ''../signup'')\<rparr>) \<and>
   users (snd (postSignup sample_validator sample_bcrypt no_faults
       (fresh\<lparr>body := signup_form (Some ''alice'') ''Alice@Example.com '' ''longpass1'' ''longpass1''\<rparr>)))
     = []"
  by code_simp

end
